theory Spec2Isabelle
  imports Complex_Main
begin

section \<open>Inference gateway: a shallow embedding of main.py\<close>

text \<open>
  The gateway is a \<^verbatim>\<open>BaseHTTPRequestHandler\<close>. Each handler method of the source is
  a function from the process state to an outcome and the new state:
  \<^item> the process state (\<open>world\<close>) holds the global \<^verbatim>\<open>metrics\<close> object, everything the
    handler has written to the client so far (one event per call of
    \<^verbatim>\<open>send_response\<close>, \<^verbatim>\<open>send_header\<close>, \<^verbatim>\<open>end_headers\<close>, \<^verbatim>\<open>wfile.write\<close>,
    \<^verbatim>\<open>wfile.flush\<close>) and every outbound HTTP call made with httpx;
  \<^item> an exception that leaves a method is the outcome \<open>Raised\<close>; the state reached
    when it was raised is kept, as Python keeps it;
  \<^item> what the outside supplies during one request (the clock, \<^verbatim>\<open>uuid.uuid4()\<close>, the
    backend's answer to the one outbound call) is the record \<open>env\<close>.
  Library calls are not re-implemented: what \<^verbatim>\<open>_read_json_body\<close> does (the decoded
  body, or the exception that \<^verbatim>\<open>int\<close> or \<^verbatim>\<open>json.loads\<close> raises) is the field
  \<open>json_body\<close> of the request, \<^verbatim>\<open>resp.json()\<close> is the decoded value carried by the
  upstream response (\<open>None\<close> when it raises), and \<^verbatim>\<open>json.dumps\<close> stays symbolic
  (\<open>Dumps\<close>). Floating-point arithmetic is not computed either: the sum of two
  floats, the float nearest to an int and \<^verbatim>\<open>round(x, 2)\<close> are operations that the
  environment supplies, and nothing is assumed of their values. Logging has no effect
  on a response or on the metrics and is left out.
\<close>

subsection \<open>JSON values and Python dictionaries\<close>

text \<open>
  A decoded JSON document. Python strings are modelled as \<open>string\<close>. A Python float
  is a finite value, an infinity or NaN (\<^verbatim>\<open>json.loads\<close> accepts \<^verbatim>\<open>NaN\<close> and
  \<^verbatim>\<open>Infinity\<close>). A \<^verbatim>\<open>dict\<close> is an association list in insertion order with distinct
  keys.
\<close>

datatype pyfloat = Finite real | PosInf | NegInf | NaN

datatype json =
    JNull
  | JBool bool
  | JInt int
  | JFloat pyfloat
  | JStr string
  | JList "json list"
  | JObj "(string \<times> json) list"

datatype pyexc =
    AttributeError
  | TypeError
  | ValueError
  | JSONDecodeError
  | RecursionError
  | OverflowError
  | TimeoutException
  | RequestError
  | OtherError

datatype outcome = Returned | Raised pyexc

text \<open>\<^verbatim>\<open>d.get(k)\<close>, \<^verbatim>\<open>d.get(k, default)\<close> and \<^verbatim>\<open>d[k] = v\<close> on a dict.\<close>

fun dict_get :: "(string \<times> json) list \<Rightarrow> string \<Rightarrow> json option" where
  "dict_get [] k = None"
| "dict_get ((k', v) # kvs) k = (if k' = k then Some v else dict_get kvs k)"

definition dict_get_default :: "(string \<times> json) list \<Rightarrow> string \<Rightarrow> json \<Rightarrow> json" where
  "dict_get_default kvs k d = (case dict_get kvs k of None \<Rightarrow> d | Some v \<Rightarrow> v)"

fun dict_set :: "(string \<times> json) list \<Rightarrow> string \<Rightarrow> json \<Rightarrow> (string \<times> json) list" where
  "dict_set [] k v = [(k, v)]"
| "dict_set ((k', v') # kvs) k v =
     (if k' = k then (k, v) # kvs else (k', v') # dict_set kvs k v)"

text \<open>Python truthiness of a decoded JSON value (\<^verbatim>\<open>if stream:\<close>).\<close>

fun truthy :: "json \<Rightarrow> bool" where
  "truthy JNull = False"
| "truthy (JBool b) = b"
| "truthy (JInt n) = (n \<noteq> 0)"
| "truthy (JFloat x) = (x \<noteq> Finite 0)"
| "truthy (JStr s) = (s \<noteq> [])"
| "truthy (JList xs) = (xs \<noteq> [])"
| "truthy (JObj kvs) = (kvs \<noteq> [])"

subsection \<open>Whitespace tokens: \<^verbatim>\<open>str.split()\<close>\<close>

text \<open>
  \<^verbatim>\<open>s.split()\<close> without arguments cuts at runs of whitespace and drops empty
  pieces. The whitespace code points below 256 are 9 to 13, 28 to 32, 133 and 160.
\<close>

definition py_isspace :: "char \<Rightarrow> bool" where
  "py_isspace c = ((of_char c :: nat) \<in> set [9, 10, 11, 12, 13, 28, 29, 30, 31, 32, 133, 160])"

fun split_acc :: "string \<Rightarrow> string \<Rightarrow> string list" where
  "split_acc acc [] = (if acc = [] then [] else [rev acc])"
| "split_acc acc (c # cs) =
     (if py_isspace c
      then (if acc = [] then split_acc [] cs else rev acc # split_acc [] cs)
      else split_acc (c # acc) cs)"

definition py_split :: "string \<Rightarrow> string list" where
  "py_split s = split_acc [] s"

subsection \<open>Settings and metrics\<close>

record Settings =
  port :: int
  backend_url :: "string option"

text \<open>\<^verbatim>\<open>if settings.backend_url:\<close> holds for a non-empty string only.\<close>

definition backend_configured :: "Settings \<Rightarrow> bool" where
  "backend_configured s = (case backend_url s of None \<Rightarrow> False | Some u \<Rightarrow> u \<noteq> [])"

text \<open>
  The float arithmetic of the interpreter, as far as the handlers use it: \<^verbatim>\<open>x + y\<close> on
  two floats, the float that an int converts to, and \<^verbatim>\<open>round(x, 2)\<close>. The values are
  left open. What is fixed is when the conversion of an int fails: \<^verbatim>\<open>float(i)\<close> raises
  \<^verbatim>\<open>OverflowError\<close> exactly when the absolute value of \<open>i\<close> is at least
  \<open>2^1024 - 2^970\<close>, the first int that rounds beyond the largest double.
\<close>

record float_ops =
  float_add :: "pyfloat \<Rightarrow> pyfloat \<Rightarrow> pyfloat"
  float_of_int :: "int \<Rightarrow> pyfloat"
  float_round2 :: "pyfloat \<Rightarrow> pyfloat"

definition float_overflow :: "int \<Rightarrow> bool" where
  "float_overflow i = (\<bar>i\<bar> \<ge> 2 ^ 1024 - 2 ^ 970)"

text \<open>
  \<^verbatim>\<open>total += count\<close> on a token total. The totals start as Python ints, which are
  unbounded; a bool counts as 0 or 1; a float operand turns the sum into a float, after
  the int operand has been converted; anything else that JSON can decode to raises
  \<^verbatim>\<open>TypeError\<close>.
\<close>

datatype pynum = PInt int | PFloat pyfloat

fun py_iadd :: "float_ops \<Rightarrow> pynum \<Rightarrow> json \<Rightarrow> pyexc + pynum" where
  "py_iadd fl (PInt a) (JInt b) = Inr (PInt (a + b))"
| "py_iadd fl (PInt a) (JBool b) = Inr (PInt (a + (if b then 1 else 0)))"
| "py_iadd fl (PInt a) (JFloat y) =
     (if float_overflow a then Inl OverflowError
      else Inr (PFloat (float_add fl (float_of_int fl a) y)))"
| "py_iadd fl (PFloat x) (JInt b) =
     (if float_overflow b then Inl OverflowError
      else Inr (PFloat (float_add fl x (float_of_int fl b))))"
| "py_iadd fl (PFloat x) (JBool b) =
     Inr (PFloat (float_add fl x (float_of_int fl (if b then 1 else 0))))"
| "py_iadd fl (PFloat x) (JFloat y) = Inr (PFloat (float_add fl x y))"
| "py_iadd fl a JNull = Inl TypeError"
| "py_iadd fl a (JStr s) = Inl TypeError"
| "py_iadd fl a (JList xs) = Inl TypeError"
| "py_iadd fl a (JObj kvs) = Inl TypeError"

fun pynum_json :: "pynum \<Rightarrow> json" where
  "pynum_json (PInt a) = JInt a"
| "pynum_json (PFloat x) = JFloat x"

record Metrics =
  request_count :: int
  error_count :: int
  total_latency_ms :: pyfloat
  prompt_tokens_total :: pynum
  completion_tokens_total :: pynum

subsection \<open>The process state and the environment of one request\<close>

text \<open>
  What is written to the client. \<open>Dumps j\<close> stands for the bytes of
  \<^verbatim>\<open>json.dumps(j).encode()\<close> and \<open>HLen j\<close> for \<^verbatim>\<open>str(len(json.dumps(j).encode()))\<close>.
  The \<^verbatim>\<open>Server\<close> and \<^verbatim>\<open>Date\<close> headers that \<^verbatim>\<open>send_response\<close> adds by itself
  are not listed.
\<close>

datatype piece = Lit string | Dumps json

datatype hval = HStr string | HLen json

datatype wire_event =
    Status int
  | Header string hval
  | EndHeaders
  | WriteBytes "piece list"
  | Flush

record outbound_call =
  verb :: string
  url :: string
  timeout :: int
  payload :: "json option"
  streaming :: bool

record world =
  metrics :: Metrics
  wire :: "wire_event list"
  calls :: "outbound_call list"

text \<open>
  The backend's answer to one outbound call. A buffered call either raises or returns
  a status code with the value of \<^verbatim>\<open>resp.json()\<close> (\<open>None\<close> when that raises). A
  streamed call either raises before the response head arrives, or yields a status
  code, the lines of \<^verbatim>\<open>resp.iter_lines()\<close> and the exception that ends the iteration
  early, if any. The environment of a request also holds the value of
  \<^verbatim>\<open>(time.monotonic() - start) * 1000\<close> at the one place where the path taken
  evaluates it (\<open>latency_ms\<close>), and the float arithmetic (\<open>arith\<close>).
\<close>

datatype upstream = UpRaises pyexc | UpResponse int "json option"

datatype upstream_stream = StRaises pyexc | StResponse int "string list" "pyexc option"

record env =
  fresh_uuid :: string
  latency_ms :: pyfloat
  arith :: float_ops
  post_result :: upstream
  stream_result :: upstream_stream
  get_result :: upstream

text \<open>
  The request: its path, its headers, and what \<^verbatim>\<open>_read_json_body\<close> does with its
  body, which is to return the decoded document or to raise. \<^verbatim>\<open>int\<close> and
  \<^verbatim>\<open>json.loads\<close> raise \<^verbatim>\<open>ValueError\<close> (of which \<^verbatim>\<open>JSONDecodeError\<close> is a subclass)
  for a body that is not JSON, and \<^verbatim>\<open>json.loads\<close> raises \<^verbatim>\<open>RecursionError\<close> for a
  body that is nested too deep.
\<close>

record request =
  path :: string
  headers :: "(string \<times> string) list"
  json_body :: "pyexc + json"

definition seq :: "outcome \<times> world \<Rightarrow> (world \<Rightarrow> outcome \<times> world) \<Rightarrow> outcome \<times> world" where
  "seq r k = (case r of (Returned, w) \<Rightarrow> k w | (Raised e, w) \<Rightarrow> (Raised e, w))"

subsection \<open>\<^verbatim>\<open>build_response\<close>\<close>

definition build_response :: "string \<Rightarrow> string \<Rightarrow> string \<Rightarrow> int \<Rightarrow> int \<Rightarrow> json" where
  "build_response request_id content model prompt_tokens completion_tokens =
     JObj [
       (''id'', JStr request_id),
       (''object'', JStr ''chat.completion''),
       (''model'', JStr model),
       (''choices'', JList [
          JObj [
            (''index'', JInt 0),
            (''message'', JObj [(''role'', JStr ''assistant''), (''content'', JStr content)]),
            (''finish_reason'', JStr ''stop'')]]),
       (''usage'', JObj [
          (''prompt_tokens'', JInt prompt_tokens),
          (''completion_tokens'', JInt completion_tokens),
          (''total_tokens'', JInt (prompt_tokens + completion_tokens))])]"

subsection \<open>Utility methods\<close>

text \<open>
  \<^verbatim>\<open>self.headers.get(name)\<close>: the first header whose name matches, compared without
  regard to case.
\<close>

definition lower_char :: "char \<Rightarrow> char" where
  "lower_char c =
     (case map_of (zip ''ABCDEFGHIJKLMNOPQRSTUVWXYZ'' ''abcdefghijklmnopqrstuvwxyz'') c of
        Some l \<Rightarrow> l
      | None \<Rightarrow> c)"

fun headers_get :: "(string \<times> string) list \<Rightarrow> string \<Rightarrow> string option" where
  "headers_get [] name = None"
| "headers_get ((k, v) # hs) name =
     (if map lower_char k = map lower_char name then Some v else headers_get hs name)"

text \<open>\<^verbatim>\<open>a or b or str(uuid.uuid4())\<close>: a header that is absent or empty is skipped.\<close>

definition get_request_id :: "env \<Rightarrow> request \<Rightarrow> string" where
  "get_request_id e r =
     (case headers_get (headers r) ''X-Request-ID'' of
        Some (c # cs) \<Rightarrow> c # cs
      | _ \<Rightarrow>
        (case headers_get (headers r) ''Request-Id'' of
           Some (c # cs) \<Rightarrow> c # cs
         | _ \<Rightarrow> fresh_uuid e))"

definition read_json_body :: "request \<Rightarrow> pyexc + json" where
  "read_json_body r = json_body r"

definition send_json_events :: "int \<Rightarrow> json \<Rightarrow> string option \<Rightarrow> wire_event list" where
  "send_json_events status data request_id =
     [Status status,
      Header ''Content-Type'' (HStr ''application/json''),
      Header ''Content-Length'' (HLen data)]
     @ (case request_id of
          Some (c # cs) \<Rightarrow> [Header ''X-Request-ID'' (HStr (c # cs))]
        | _ \<Rightarrow> [])
     @ [EndHeaders, WriteBytes [Dumps data]]"

definition send_json :: "int \<Rightarrow> json \<Rightarrow> string option \<Rightarrow> world \<Rightarrow> outcome \<times> world" where
  "send_json status data request_id w =
     (Returned, w\<lparr>wire := wire w @ send_json_events status data request_id\<rparr>)"

text \<open>
  \<^verbatim>\<open>_record_metrics\<close>: the five updates in their order. An exception of \<^verbatim>\<open>+=\<close> leaves
  the method with the updates made before it.
\<close>

definition record_metrics ::
  "env \<Rightarrow> int \<Rightarrow> pyfloat \<Rightarrow> json \<Rightarrow> json \<Rightarrow> world \<Rightarrow> outcome \<times> world" where
  "record_metrics e status latency prompt_tokens completion_tokens w =
     (let m1 = (metrics w)\<lparr>request_count := request_count (metrics w) + 1\<rparr>;
          m2 = m1\<lparr>total_latency_ms := float_add (arith e) (total_latency_ms m1) latency\<rparr>
      in case py_iadd (arith e) (prompt_tokens_total m2) prompt_tokens of
           Inl x \<Rightarrow> (Raised x, w\<lparr>metrics := m2\<rparr>)
         | Inr p \<Rightarrow>
             (let m3 = m2\<lparr>prompt_tokens_total := p\<rparr>
              in case py_iadd (arith e) (completion_tokens_total m3) completion_tokens of
                   Inl x \<Rightarrow> (Raised x, w\<lparr>metrics := m3\<rparr>)
                 | Inr c \<Rightarrow>
                     (let m4 = m3\<lparr>completion_tokens_total := c\<rparr>
                      in (Returned,
                          w\<lparr>metrics :=
                              (if status \<ge> 400
                               then m4\<lparr>error_count := error_count m4 + 1\<rparr>
                               else m4)\<rparr>))))"

subsection \<open>Echo responder\<close>

definition sse_chunk :: "string \<Rightarrow> string \<Rightarrow> json" where
  "sse_chunk request_id content =
     JObj [
       (''id'', JStr request_id),
       (''object'', JStr ''chat.completion.chunk''),
       (''choices'', JList [
          JObj [
            (''index'', JInt 0),
            (''delta'', JObj [(''role'', JStr ''assistant''), (''content'', JStr content)]),
            (''finish_reason'', JStr ''stop'')]])]"

definition sse_echo_events :: "string \<Rightarrow> string \<Rightarrow> wire_event list" where
  "sse_echo_events request_id content =
     [Status 200,
      Header ''Content-Type'' (HStr ''text/event-stream''),
      Header ''Cache-Control'' (HStr ''no-cache''),
      Header ''X-Request-ID'' (HStr request_id),
      EndHeaders,
      WriteBytes [Lit ''data: '', Dumps (sse_chunk request_id content), Lit [CHR 0x0A, CHR 0x0A]],
      WriteBytes [Lit (''data: [DONE]'' @ [CHR 0x0A, CHR 0x0A])],
      Flush]"

definition send_sse_echo :: "string \<Rightarrow> string \<Rightarrow> world \<Rightarrow> outcome \<times> world" where
  "send_sse_echo request_id content w =
     (Returned, w\<lparr>wire := wire w @ sse_echo_events request_id content\<rparr>)"

text \<open>
  \<^verbatim>\<open>_handle_echo\<close>. The prompt is whatever the scan of the messages found. Of the
  values JSON decodes to only a \<^verbatim>\<open>str\<close> has \<^verbatim>\<open>split\<close>; for any other value
  \<^verbatim>\<open>prompt.split()\<close> raises \<^verbatim>\<open>AttributeError\<close> before anything is sent.
\<close>

definition handle_echo :: "env \<Rightarrow> string \<Rightarrow> json \<Rightarrow> json \<Rightarrow> world \<Rightarrow> outcome \<times> world" where
  "handle_echo e request_id prompt stream w =
     (case prompt of
        JStr p \<Rightarrow>
          (let content = ''Echo: '' @ p;
               prompt_tokens = int (length (py_split p));
               completion_tokens = int (length (py_split content))
           in seq (if truthy stream
                   then send_sse_echo request_id content w
                   else send_json 200
                          (build_response request_id content ''echo'' prompt_tokens completion_tokens)
                          (Some request_id) w)
                  (record_metrics e 200 (latency_ms e) (JInt prompt_tokens) (JInt completion_tokens)))
      | _ \<Rightarrow> (Raised AttributeError, w))"

subsection \<open>Backend proxy\<close>

definition rstrip_slash :: "string \<Rightarrow> string" where
  "rstrip_slash s = rev (dropWhile (\<lambda>c. c = CHR ''/'') (rev s))"

definition error_body :: "string \<Rightarrow> json" where
  "error_body code = JObj [(''error'', JStr code)]"

definition zero :: json where
  "zero = JInt 0"

text \<open>
  \<^verbatim>\<open>_proxy_non_stream\<close>. An exception of \<^verbatim>\<open>client.post\<close> leaves the method. After a
  decoded body, \<^verbatim>\<open>data["id"] = request_id\<close> raises \<^verbatim>\<open>TypeError\<close> unless the body is
  a dict, and \<^verbatim>\<open>usage.get\<close> raises \<^verbatim>\<open>AttributeError\<close> unless \<^verbatim>\<open>usage\<close> is a dict.
\<close>

definition proxy_non_stream ::
  "env \<Rightarrow> string \<Rightarrow> string \<Rightarrow> json \<Rightarrow> world \<Rightarrow> outcome \<times> world" where
  "proxy_non_stream e request_id target body w =
     (let w1 = w\<lparr>calls := calls w @
                 [\<lparr>verb = ''POST'', url = target, timeout = 60,
                   payload = Some body, streaming = False\<rparr>]\<rparr>
      in case post_result e of
           UpRaises x \<Rightarrow> (Raised x, w1)
         | UpResponse status_code decoded \<Rightarrow>
             if status_code \<ge> 500
             then seq (record_metrics e 502 (latency_ms e) zero zero w1)
                      (send_json 502 (error_body ''backend_error'') (Some request_id))
             else
               (case decoded of
                  None \<Rightarrow>
                    seq (record_metrics e 502 (latency_ms e) zero zero w1)
                        (send_json 502 (error_body ''backend_invalid_response'') (Some request_id))
                | Some (JObj kvs) \<Rightarrow>
                    (let data = dict_set kvs ''id'' (JStr request_id)
                     in case dict_get_default data ''usage'' (JObj []) of
                          JObj usage \<Rightarrow>
                            (let prompt_tokens = dict_get_default usage ''prompt_tokens'' zero;
                                 completion_tokens = dict_get_default usage ''completion_tokens'' zero
                             in seq (record_metrics e status_code (latency_ms e)
                                       prompt_tokens completion_tokens w1)
                                    (send_json status_code (JObj data) (Some request_id)))
                        | _ \<Rightarrow> (Raised AttributeError, w1))
                | Some _ \<Rightarrow> (Raised TypeError, w1)))"

text \<open>
  \<^verbatim>\<open>_proxy_stream\<close>. Once the upstream head has a status below 500 the SSE head is
  sent and every line is relayed as it comes; an exception that ends the iteration
  leaves the method with the head and the relayed lines already on the wire.
\<close>

definition stream_head_events :: "string \<Rightarrow> wire_event list" where
  "stream_head_events request_id =
     [Status 200,
      Header ''Content-Type'' (HStr ''text/event-stream''),
      Header ''Cache-Control'' (HStr ''no-cache''),
      Header ''X-Request-ID'' (HStr request_id),
      EndHeaders]"

definition proxy_stream ::
  "env \<Rightarrow> string \<Rightarrow> string \<Rightarrow> json \<Rightarrow> world \<Rightarrow> outcome \<times> world" where
  "proxy_stream e request_id target body w =
     (let w1 = w\<lparr>calls := calls w @
                 [\<lparr>verb = ''POST'', url = target, timeout = 60,
                   payload = Some body, streaming = True\<rparr>]\<rparr>
      in case stream_result e of
           StRaises x \<Rightarrow> (Raised x, w1)
         | StResponse status_code lines failure \<Rightarrow>
             if status_code \<ge> 500
             then seq (record_metrics e 502 (latency_ms e) zero zero w1)
                      (send_json 502 (error_body ''backend_error'') (Some request_id))
             else
               (let w2 = w1\<lparr>wire := wire w1 @ stream_head_events request_id
                              @ map (\<lambda>line. WriteBytes [Lit (line @ [CHR 0x0A])]) lines\<rparr>
                in case failure of
                     Some x \<Rightarrow> (Raised x, w2)
                   | None \<Rightarrow>
                       record_metrics e 200 (latency_ms e) zero zero
                         (w2\<lparr>wire := wire w2 @ [WriteBytes [Lit [CHR 0x0A]], Flush]\<rparr>)))"

text \<open>
  \<^verbatim>\<open>_handle_backend\<close>: the two \<^verbatim>\<open>except\<close> clauses in their order; any other exception
  goes on to the caller.
\<close>

definition handle_backend ::
  "env \<Rightarrow> string \<Rightarrow> string \<Rightarrow> json \<Rightarrow> json \<Rightarrow> world \<Rightarrow> outcome \<times> world" where
  "handle_backend e base request_id body stream w =
     (let target = rstrip_slash base @ ''/v1/chat/completions'';
          r = (if truthy stream
               then proxy_stream e request_id target body w
               else proxy_non_stream e request_id target body w)
      in case r of
           (Raised TimeoutException, w1) \<Rightarrow>
             seq (record_metrics e 504 (latency_ms e) zero zero w1)
                 (send_json 504 (error_body ''gateway_timeout'') (Some request_id))
         | (Raised RequestError, w1) \<Rightarrow>
             seq (record_metrics e 502 (latency_ms e) zero zero w1)
                 (send_json 502 (error_body ''backend_unavailable'') (Some request_id))
         | _ \<Rightarrow> r)"

subsection \<open>\<^verbatim>\<open>/v1/chat/completions\<close>\<close>

text \<open>
  The scan for the prompt, \<^verbatim>\<open>for msg in reversed(messages)\<close>: \<^verbatim>\<open>msg.get\<close> raises
  \<^verbatim>\<open>AttributeError\<close> on an entry that is not a dict; the first entry whose role is the
  string \<^verbatim>\<open>user\<close> ends the scan with \<^verbatim>\<open>msg.get("content", "")\<close>.
\<close>

fun scan_prompt :: "json list \<Rightarrow> pyexc + json" where
  "scan_prompt [] = Inr (JStr [])"
| "scan_prompt (JObj kvs # ms) =
     (if dict_get kvs ''role'' = Some (JStr ''user'')
      then Inr (dict_get_default kvs ''content'' (JStr []))
      else scan_prompt ms)"
| "scan_prompt (other # ms) = Inl AttributeError"

definition extract_prompt :: "json list \<Rightarrow> pyexc + json" where
  "extract_prompt messages = scan_prompt (rev messages)"

definition handle_chat_completions ::
  "env \<Rightarrow> Settings \<Rightarrow> request \<Rightarrow> world \<Rightarrow> outcome \<times> world" where
  "handle_chat_completions e settings r w =
     (let request_id = get_request_id e r
      in case read_json_body r of
           Inl x \<Rightarrow>
             if x = JSONDecodeError \<or> x = ValueError
             then seq (record_metrics e 400 (latency_ms e) zero zero w)
                      (send_json 400 (error_body ''invalid_json'') None)
             else (Raised x, w)
         | Inr (JObj body) \<Rightarrow>
             (case dict_get body ''messages'' of
                Some (JList (m # ms)) \<Rightarrow>
                  (let stream = dict_get_default body ''stream'' (JBool False)
                   in case extract_prompt (m # ms) of
                        Inl x \<Rightarrow> (Raised x, w)
                      | Inr prompt \<Rightarrow>
                          (case backend_url settings of
                             Some (c # cs) \<Rightarrow>
                               handle_backend e (c # cs) request_id (JObj body) stream w
                           | _ \<Rightarrow> handle_echo e request_id prompt stream w))
              | _ \<Rightarrow>
                  seq (record_metrics e 400 (latency_ms e) zero zero w)
                      (send_json 400 (error_body ''invalid_messages'') None))
         | Inr _ \<Rightarrow> (Raised AttributeError, w))"

subsection \<open>Models listing and the routes\<close>

definition proxy_models :: "env \<Rightarrow> string \<Rightarrow> world \<Rightarrow> outcome \<times> world" where
  "proxy_models e base w =
     (let w1 = w\<lparr>calls := calls w @
                 [\<lparr>verb = ''GET'', url = rstrip_slash base @ ''/v1/models'', timeout = 10,
                   payload = None, streaming = False\<rparr>]\<rparr>
      in case get_result e of
           UpRaises TimeoutException \<Rightarrow> send_json 504 (error_body ''gateway_timeout'') None w1
         | UpRaises RequestError \<Rightarrow> send_json 502 (error_body ''backend_unavailable'') None w1
         | UpRaises x \<Rightarrow> (Raised x, w1)
         | UpResponse status_code None \<Rightarrow> (Raised JSONDecodeError, w1)
         | UpResponse status_code (Some data) \<Rightarrow> send_json status_code data None w1)"

definition echo_models :: json where
  "echo_models =
     JObj [
       (''object'', JStr ''list''),
       (''data'', JList [
          JObj [
            (''id'', JStr ''echo''),
            (''object'', JStr ''model''),
            (''owned_by'', JStr ''inference-gateway'')]])]"

definition metrics_body :: "float_ops \<Rightarrow> Metrics \<Rightarrow> json" where
  "metrics_body fl m =
     JObj [
       (''request_count'', JInt (request_count m)),
       (''error_count'', JInt (error_count m)),
       (''total_latency_ms'', JFloat (float_round2 fl (total_latency_ms m))),
       (''prompt_tokens_total'', pynum_json (prompt_tokens_total m)),
       (''completion_tokens_total'', pynum_json (completion_tokens_total m))]"

definition do_GET :: "env \<Rightarrow> Settings \<Rightarrow> request \<Rightarrow> world \<Rightarrow> outcome \<times> world" where
  "do_GET e settings r w =
     (if path r = ''/healthz''
      then send_json 200 (JObj [(''status'', JStr ''ok'')]) None w
      else if path r = ''/v1/models''
      then (case backend_url settings of
              Some (c # cs) \<Rightarrow> proxy_models e (c # cs) w
            | _ \<Rightarrow> send_json 200 echo_models None w)
      else if path r = ''/metrics''
      then send_json 200 (metrics_body (arith e) (metrics w)) None w
      else send_json 404 (error_body ''not_found'') None w)"

definition do_POST :: "env \<Rightarrow> Settings \<Rightarrow> request \<Rightarrow> world \<Rightarrow> outcome \<times> world" where
  "do_POST e settings r w =
     (if path r = ''/v1/chat/completions''
      then handle_chat_completions e settings r w
      else send_json 404 (error_body ''not_found'') None w)"

section \<open>Observations on a run\<close>

text \<open>
  What a client sees of the events written for it: the status codes of the response
  heads in their order, each head with the headers sent right after it, and every
  JSON document that was serialised into the body.
\<close>

fun statuses :: "wire_event list \<Rightarrow> int list" where
  "statuses [] = []"
| "statuses (Status s # evs) = s # statuses evs"
| "statuses (ev # evs) = statuses evs"

fun header_block :: "wire_event list \<Rightarrow> (string \<times> hval) list" where
  "header_block (Header k v # evs) = (k, v) # header_block evs"
| "header_block evs = []"

fun response_heads :: "wire_event list \<Rightarrow> (int \<times> (string \<times> hval) list) list" where
  "response_heads [] = []"
| "response_heads (Status s # evs) = (s, header_block evs) # response_heads evs"
| "response_heads (ev # evs) = response_heads evs"

fun dumped_piece :: "piece \<Rightarrow> json list" where
  "dumped_piece (Dumps j) = [j]"
| "dumped_piece (Lit s) = []"

fun dumped :: "wire_event list \<Rightarrow> json list" where
  "dumped [] = []"
| "dumped (WriteBytes ps # evs) = concat (map dumped_piece ps) @ dumped evs"
| "dumped (ev # evs) = dumped evs"

text \<open>Reading a field of a JSON document: \<^verbatim>\<open>body["choices"][0]["message"]\<close>.\<close>

datatype step = Key string | Idx nat

fun jpath :: "json \<Rightarrow> step list \<Rightarrow> json option" where
  "jpath j [] = Some j"
| "jpath (JObj kvs) (Key k # p) =
     (case dict_get kvs k of None \<Rightarrow> None | Some v \<Rightarrow> jpath v p)"
| "jpath (JList xs) (Idx i # p) = (if i < length xs then jpath (xs ! i) p else None)"
| "jpath j (s # p) = None"

text \<open>The state after a request has been recorded with no tokens.\<close>

definition recorded :: "env \<Rightarrow> int \<Rightarrow> pyfloat \<Rightarrow> world \<Rightarrow> world" where
  "recorded e st lat w = snd (record_metrics e st lat zero zero w)"

subsection \<open>Fixtures of the test suite\<close>

text \<open>
  The two fixtures of \<^verbatim>\<open>tests/test_gateway.py\<close>: zeroed metrics, with no backend
  (\<^verbatim>\<open>gateway\<close>) or with the mock backend (\<^verbatim>\<open>backend_gateway\<close>), and its payload.
\<close>

definition fresh_metrics :: Metrics where
  "fresh_metrics =
     \<lparr>request_count = 0, error_count = 0, total_latency_ms = Finite 0,
      prompt_tokens_total = PInt 0, completion_tokens_total = PInt 0\<rparr>"

definition world0 :: world where
  "world0 = \<lparr>metrics = fresh_metrics, wire = [], calls = []\<rparr>"

definition gateway :: Settings where
  "gateway = \<lparr>port = 8080, backend_url = None\<rparr>"

definition backend_gateway :: Settings where
  "backend_gateway = \<lparr>port = 8080, backend_url = Some ''http://test-backend''\<rparr>"

definition COMPLETION_PAYLOAD :: json where
  "COMPLETION_PAYLOAD =
     JObj [
       (''model'', JStr ''test''),
       (''messages'', JList [JObj [(''role'', JStr ''user''), (''content'', JStr ''hello'')]])]"

text \<open>
  A POST to the chat-completions path with the given headers, whose body decodes to
  the given document or, for \<open>None\<close>, is not JSON.
\<close>

definition post_chat :: "(string \<times> string) list \<Rightarrow> json option \<Rightarrow> request" where
  "post_chat hs b =
     \<lparr>path = ''/v1/chat/completions'', headers = hs,
      json_body = (case b of None \<Rightarrow> Inl JSONDecodeError | Some j \<Rightarrow> Inr j)\<rparr>"

text \<open>The same, for a body on which \<^verbatim>\<open>_read_json_body\<close> raises the given exception.\<close>

definition post_chat_raising :: "pyexc \<Rightarrow> request" where
  "post_chat_raising x = \<lparr>path = ''/v1/chat/completions'', headers = [], json_body = Inl x\<rparr>"

text \<open>A request without a body, to the given path.\<close>

definition get_path :: "string \<Rightarrow> request" where
  "get_path p = \<lparr>path = p, headers = [], json_body = Inl JSONDecodeError\<rparr>"

definition get_with :: "(string \<times> string) list \<Rightarrow> string \<Rightarrow> request" where
  "get_with hs p = \<lparr>path = p, headers = hs, json_body = Inl JSONDecodeError\<rparr>"

text \<open>
  A float arithmetic that computes exactly. It agrees with the interpreter wherever
  the exact result is a double, as it is on the values the fixtures use.
\<close>

definition exact_arith :: float_ops where
  "exact_arith =
     \<lparr>float_add = (\<lambda>x y. case x of
                         Finite a \<Rightarrow> (case y of Finite b \<Rightarrow> Finite (a + b) | _ \<Rightarrow> y)
                       | _ \<Rightarrow> x),
      float_of_int = (\<lambda>i. Finite (of_int i)),
      float_round2 = (\<lambda>x. x)\<rparr>"


text \<open>An environment whose backend answers the buffered call with \<open>u\<close>.\<close>

definition env_post :: "upstream \<Rightarrow> env" where
  "env_post u =
     \<lparr>fresh_uuid = ''0b0e4c1e-7c3a-4d2f-9a51-5f6c2d8e9a10'', latency_ms = Finite 0,
      arith = exact_arith,
      post_result = u, stream_result = StRaises OtherError, get_result = u\<rparr>"

text \<open>An environment whose backend answers the streamed call with \<open>u\<close>.\<close>

definition env_stream :: "upstream_stream \<Rightarrow> env" where
  "env_stream u =
     \<lparr>fresh_uuid = ''0b0e4c1e-7c3a-4d2f-9a51-5f6c2d8e9a10'', latency_ms = Finite 0,
      arith = exact_arith,
      post_result = UpRaises OtherError, stream_result = u, get_result = UpRaises OtherError\<rparr>"

subsection \<open>Responses that carry the request id\<close>

text \<open>
  A run of events is stamped with a request id when every response head in it has
  the header \<^verbatim>\<open>X-Request-ID\<close> with that id and every JSON document serialised in it
  that has a top-level \<^verbatim>\<open>id\<close> has that id there.
\<close>

definition stamped :: "string \<Rightarrow> wire_event list \<Rightarrow> bool" where
  "stamped rid evs =
     ((\<forall>h \<in> set (response_heads evs). map_of (snd h) ''X-Request-ID'' = Some (HStr rid)) \<and>
      (\<forall>j \<in> set (dumped evs). \<forall>v. jpath j [Key ''id''] = Some v \<longrightarrow> v = JStr rid))"

subsection \<open>Runs of chat-completion requests\<close>





text \<open>
  The environments whose backend, when its buffered answer has a usage object,
  reports non-negative integers as the two token counts (an absent count is 0), and
  the pairs of metrics whose token totals are integers that have not decreased.
\<close>

fun nonneg_int :: "json \<Rightarrow> bool" where
  "nonneg_int (JInt n) = (0 \<le> n)"
| "nonneg_int j = False"








section \<open>Properties\<close>

subsection \<open>Basic facts\<close>

lemma seq_Returned [simp]: "seq (Returned, w) k = k w"
  by (simp add: seq_def)

lemma seq_Raised [simp]: "seq (Raised x, w) k = (Raised x, w)"
  by (simp add: seq_def)

lemma float_overflow_small [simp]: "\<not> float_overflow 0" "\<not> float_overflow 1"
  by (simp_all add: float_overflow_def)

lemma py_iadd_zero: "\<exists>q. py_iadd fl p zero = Inr q"
  by (cases p) (simp_all add: zero_def)

lemma py_iadd_exception: "py_iadd fl p j = Inl x \<Longrightarrow> x = TypeError \<or> x = OverflowError"
  by (cases p; cases j) (auto split: if_splits)

lemma record_metrics_zero:
  "record_metrics e st lat zero zero w = (Returned, recorded e st lat w)"
proof -
  obtain p where p: "py_iadd (arith e) (prompt_tokens_total (metrics w)) zero = Inr p"
    using py_iadd_zero by blast
  obtain c where c: "py_iadd (arith e) (completion_tokens_total (metrics w)) zero = Inr c"
    using py_iadd_zero by blast
  show ?thesis
    using p c by (simp add: recorded_def record_metrics_def Let_def)
qed

lemma record_metrics_wire [simp]: "wire (snd (record_metrics e st lat p c w)) = wire w"
  by (simp add: record_metrics_def Let_def split: sum.splits)

lemma record_metrics_calls [simp]: "calls (snd (record_metrics e st lat p c w)) = calls w"
  by (simp add: record_metrics_def Let_def split: sum.splits)

lemma recorded_wire [simp]: "wire (recorded e st lat w) = wire w"
  by (simp add: recorded_def)

lemma recorded_calls [simp]: "calls (recorded e st lat w) = calls w"
  by (simp add: recorded_def)

lemma record_metrics_counts:
  "request_count (metrics (snd (record_metrics e st lat p c w))) = request_count (metrics w) + 1"
  "fst (record_metrics e st lat p c w) = Returned \<Longrightarrow>
   error_count (metrics (snd (record_metrics e st lat p c w)))
     = error_count (metrics w) + (if st \<ge> 400 then 1 else 0)"
  by (auto simp add: record_metrics_def Let_def split: sum.splits)

lemma recorded_counts [simp]:
  "request_count (metrics (recorded e st lat w)) = request_count (metrics w) + 1"
  "error_count (metrics (recorded e st lat w)) = error_count (metrics w) + (if st \<ge> 400 then 1 else 0)"
proof -
  have "fst (record_metrics e st lat zero zero w) = Returned"
    by (simp add: record_metrics_zero)
  then show "request_count (metrics (recorded e st lat w)) = request_count (metrics w) + 1"
    "error_count (metrics (recorded e st lat w)) = error_count (metrics w) + (if st \<ge> 400 then 1 else 0)"
    unfolding recorded_def by (simp_all only: record_metrics_counts)
qed

lemma seq_record_send:
  "(\<exists>x. (x = TypeError \<or> x = OverflowError) \<and>
        seq (record_metrics e st lat p c w) (send_json st' d r)
          = (Raised x, snd (record_metrics e st lat p c w))) \<or>
   seq (record_metrics e st lat p c w) (send_json st' d r)
     = (Returned, (snd (record_metrics e st lat p c w))\<lparr>wire := wire w @ send_json_events st' d r\<rparr>)"
proof (cases "fst (record_metrics e st lat p c w)")
  case Returned
  then have "record_metrics e st lat p c w = (Returned, snd (record_metrics e st lat p c w))"
    by (simp add: prod_eq_iff)
  then have "seq (record_metrics e st lat p c w) (send_json st' d r)
     = send_json st' d r (snd (record_metrics e st lat p c w))"
    by (metis seq_Returned)
  then show ?thesis
    by (simp add: send_json_def)
next
  case (Raised x)
  then have r: "record_metrics e st lat p c w = (Raised x, snd (record_metrics e st lat p c w))"
    by (simp add: prod_eq_iff)
  have "x = TypeError \<or> x = OverflowError"
    using Raised py_iadd_exception
    by (auto simp add: record_metrics_def Let_def split: sum.splits)
  moreover have "seq (record_metrics e st lat p c w) (send_json st' d r)
     = (Raised x, snd (record_metrics e st lat p c w))"
    using r by (metis seq_Raised)
  ultimately show ?thesis
    by blast
qed

lemma statuses_append [simp]: "statuses (xs @ ys) = statuses xs @ statuses ys"
  by (induction xs rule: statuses.induct) simp_all

lemma dumped_append [simp]: "dumped (xs @ ys) = dumped xs @ dumped ys"
  by (induction xs rule: dumped.induct) simp_all

lemma header_block_Status: "header_block (xs @ Status s # ys) = header_block xs"
  by (induction xs rule: header_block.induct) simp_all

lemma response_heads_Status:
  "response_heads (xs @ Status s # ys) = response_heads xs @ response_heads (Status s # ys)"
  by (induction xs rule: response_heads.induct) (simp_all add: header_block_Status)

lemma dict_get_set_other: "k \<noteq> k' \<Longrightarrow> dict_get (dict_set kvs k v) k' = dict_get kvs k'"
  by (induction kvs) auto

lemma dict_get_set_same: "dict_get (dict_set kvs k v) k = Some v"
  by (induction kvs) auto

subsection \<open>Routes that leave the metrics alone\<close>

text \<open>
  C10. A GET request, whatever its path (\<^verbatim>\<open>/healthz\<close>, \<^verbatim>\<open>/metrics\<close>, \<^verbatim>\<open>/v1/models\<close>
  with or without a backend, or an unknown path answered with 404), leaves all five
  fields of the metrics as they were, also when the models proxy fails. A POST to any
  path other than \<^verbatim>\<open>/v1/chat/completions\<close> is answered with 404 \<^verbatim>\<open>not_found\<close> and
  changes nothing but the wire: only the chat-completions path touches the metrics.
\<close>

theorem C10_routes_leave_metrics:
  "metrics (snd (do_GET e s r w)) = metrics w \<and>
   (path r \<noteq> ''/v1/chat/completions'' \<longrightarrow>
      do_POST e s r w =
        (Returned, w\<lparr>wire := wire w @ send_json_events 404 (error_body ''not_found'') None\<rparr>))"
  by (simp add: do_GET_def do_POST_def send_json_def proxy_models_def Let_def
      split: upstream.splits pyexc.splits option.splits list.splits)

theorem C10_routes_leave_metrics_witness:
  "metrics (snd (do_GET (env_post (UpRaises OtherError)) backend_gateway
                   (get_path ''/v1/models'') world0)) = fresh_metrics \<and>
   path (get_path ''/unknown'') \<noteq> ''/v1/chat/completions'' \<and>
   do_POST (env_post (UpRaises OtherError)) gateway (get_path ''/unknown'') world0 =
     (Returned, world0\<lparr>wire := [Status 404,
        Header ''Content-Type'' (HStr ''application/json''),
        Header ''Content-Length'' (HLen (JObj [(''error'', JStr ''not_found'')])),
        EndHeaders, WriteBytes [Dumps (JObj [(''error'', JStr ''not_found'')])]]\<rparr>)"
  using C10_routes_leave_metrics [of "env_post (UpRaises OtherError)" backend_gateway
      "get_path ''/v1/models''" world0]
    C10_routes_leave_metrics [of "env_post (UpRaises OtherError)" gateway
      "get_path ''/unknown''" world0]
  by (simp add: get_path_def world0_def send_json_events_def error_body_def)

subsection \<open>Exceptions that leave the handler\<close>

text \<open>
  C7. The claim is that no exception leaves the chat-completions handler whatever the
  shape of the parsed body or of the decoded backend body. The handler validates
  that \<^verbatim>\<open>messages\<close> is a non-empty list and then calls \<^verbatim>\<open>msg.get\<close> on every entry
  it scans. With the body \<^verbatim>\<open>{"messages": [1]}\<close> in echo mode the scan raises
  \<^verbatim>\<open>AttributeError\<close>: the handler ends with that exception, nothing has been written
  to the client and the metrics are untouched. Likewise, with a backend that answers
  200 with the JSON body \<^verbatim>\<open>[]\<close>, the assignment \<^verbatim>\<open>data["id"] = request_id\<close> raises
  \<^verbatim>\<open>TypeError\<close> after the outbound call, and nothing is written to the client.
\<close>

theorem C7_exception_escapes:
  "handle_chat_completions (env_post (UpRaises OtherError)) gateway
     (post_chat [] (Some (JObj [(''messages'', JList [JInt 1])]))) world0
   = (Raised AttributeError, world0) \<and>
   handle_chat_completions (env_post (UpResponse 200 (Some (JList [])))) backend_gateway
     (post_chat [] (Some COMPLETION_PAYLOAD)) world0
   = (Raised TypeError,
      world0\<lparr>calls := [\<lparr>verb = ''POST'', url = ''http://test-backend/v1/chat/completions'',
                          timeout = 60, payload = Some COMPLETION_PAYLOAD, streaming = False\<rparr>]\<rparr>)"
  by (simp add: handle_chat_completions_def read_json_body_def post_chat_def extract_prompt_def
      COMPLETION_PAYLOAD_def backend_gateway_def handle_backend_def proxy_non_stream_def
      env_post_def Let_def dict_get_default_def rstrip_slash_def world0_def)

subsection \<open>Models listing\<close>

text \<open>
  C9. With a backend configured, GET \<^verbatim>\<open>/v1/models\<close> makes one GET call with timeout 10
  to the backend. When the backend answers 200 with a body that is not JSON,
  \<^verbatim>\<open>resp.json()\<close> raises inside the \<^verbatim>\<open>try\<close> whose handlers catch the httpx
  exceptions only: the exception leaves the handler and no response is written.
\<close>

theorem C9_models_body_not_json:
  "do_GET (env_post (UpResponse 200 None)) backend_gateway (get_path ''/v1/models'') world0
   = (Raised JSONDecodeError,
      world0\<lparr>calls := [\<lparr>verb = ''GET'', url = ''http://test-backend/v1/models'',
                          timeout = 10, payload = None, streaming = False\<rparr>]\<rparr>)"
  by (simp add: do_GET_def get_path_def backend_gateway_def proxy_models_def env_post_def
      world0_def rstrip_slash_def)

text \<open>
  What the route does otherwise: without a backend it answers 200 with the static
  listing of the echo model; with a backend it makes one GET call with timeout 10 and
  relays the status with the decoded body, or answers 504 \<^verbatim>\<open>gateway_timeout\<close> after a
  timeout and 502 \<^verbatim>\<open>backend_unavailable\<close> after another request error.
\<close>

lemma models_listing:
  assumes "path r = ''/v1/models''"
  shows "\<not> backend_configured s \<Longrightarrow>
           do_GET e s r w = (Returned, w\<lparr>wire := wire w @ send_json_events 200 echo_models None\<rparr>)"
    and "backend_url s = Some base \<Longrightarrow> base \<noteq> [] \<Longrightarrow>
           do_GET e s r w =
             (case get_result e of
                UpResponse st (Some data) \<Rightarrow>
                  (Returned, w\<lparr>calls := calls w @ [\<lparr>verb = ''GET'',
                       url = rstrip_slash base @ ''/v1/models'',
                       timeout = 10, payload = None, streaming = False\<rparr>],
                     wire := wire w @ send_json_events st data None\<rparr>)
              | UpResponse st None \<Rightarrow>
                  (Raised JSONDecodeError, w\<lparr>calls := calls w @ [\<lparr>verb = ''GET'',
                       url = rstrip_slash base @ ''/v1/models'',
                       timeout = 10, payload = None, streaming = False\<rparr>]\<rparr>)
              | UpRaises TimeoutException \<Rightarrow>
                  (Returned, w\<lparr>calls := calls w @ [\<lparr>verb = ''GET'',
                       url = rstrip_slash base @ ''/v1/models'',
                       timeout = 10, payload = None, streaming = False\<rparr>],
                     wire := wire w @ send_json_events 504 (error_body ''gateway_timeout'') None\<rparr>)
              | UpRaises RequestError \<Rightarrow>
                  (Returned, w\<lparr>calls := calls w @ [\<lparr>verb = ''GET'',
                       url = rstrip_slash base @ ''/v1/models'',
                       timeout = 10, payload = None, streaming = False\<rparr>],
                     wire := wire w @ send_json_events 502 (error_body ''backend_unavailable'') None\<rparr>)
              | UpRaises x \<Rightarrow>
                  (Raised x, w\<lparr>calls := calls w @ [\<lparr>verb = ''GET'',
                       url = rstrip_slash base @ ''/v1/models'',
                       timeout = 10, payload = None, streaming = False\<rparr>]\<rparr>))"
  using assms
  by (auto simp add: do_GET_def backend_configured_def proxy_models_def send_json_def Let_def
      split: option.splits list.splits upstream.splits pyexc.splits)

subsection \<open>Validation of the request body\<close>

text \<open>
  C5. The claim is that a body that is not valid JSON is answered with 400
  \<^verbatim>\<open>invalid_json\<close>, and a body that is valid JSON without a usable \<^verbatim>\<open>messages\<close> field
  with 400 \<^verbatim>\<open>invalid_messages\<close>. The handler catches \<^verbatim>\<open>ValueError\<close> only and calls
  \<^verbatim>\<open>body.get\<close> on whatever was decoded. For a body on which \<^verbatim>\<open>json.loads\<close> raises
  \<^verbatim>\<open>RecursionError\<close> (a long run of opening brackets, which is not valid JSON) that
  exception leaves the handler; for the body \<^verbatim>\<open>[]\<close>, which is valid JSON and has no
  \<^verbatim>\<open>messages\<close> field, \<^verbatim>\<open>body.get\<close> raises \<^verbatim>\<open>AttributeError\<close>. In both cases nothing
  is written to the client and nothing is recorded.
\<close>

theorem C5_body_escapes:
  "handle_chat_completions (env_post (UpRaises OtherError)) gateway
     (post_chat_raising RecursionError) world0
   = (Raised RecursionError, world0) \<and>
   handle_chat_completions (env_post (UpRaises OtherError)) gateway
     (post_chat [] (Some (JList []))) world0
   = (Raised AttributeError, world0)"
  by (simp add: handle_chat_completions_def read_json_body_def post_chat_def
      post_chat_raising_def)

text \<open>
  What the validation does otherwise: when \<^verbatim>\<open>_read_json_body\<close> raises \<^verbatim>\<open>ValueError\<close>
  the handler records one request with status 400, answers 400 \<^verbatim>\<open>invalid_json\<close> and
  does nothing else; when the body is a JSON object whose \<^verbatim>\<open>messages\<close> field is
  missing, not a list, or the empty list, it records one request with status 400,
  answers 400 \<^verbatim>\<open>invalid_messages\<close> and does nothing else.
\<close>

lemma request_validation:
  "json_body r = Inl JSONDecodeError \<or> json_body r = Inl ValueError \<Longrightarrow>
     handle_chat_completions e s r w =
       (Returned, (recorded e 400 (latency_ms e) w)\<lparr>wire := wire w @
          send_json_events 400 (JObj [(''error'', JStr ''invalid_json'')]) None\<rparr>)"
  "json_body r = Inr (JObj body) \<Longrightarrow>
   \<not> (\<exists>m ms. dict_get body ''messages'' = Some (JList (m # ms))) \<Longrightarrow>
     handle_chat_completions e s r w =
       (Returned, (recorded e 400 (latency_ms e) w)\<lparr>wire := wire w @
          send_json_events 400 (JObj [(''error'', JStr ''invalid_messages'')]) None\<rparr>)"
proof -
  assume "json_body r = Inl JSONDecodeError \<or> json_body r = Inl ValueError"
  then show "handle_chat_completions e s r w =
       (Returned, (recorded e 400 (latency_ms e) w)\<lparr>wire := wire w @
          send_json_events 400 (JObj [(''error'', JStr ''invalid_json'')]) None\<rparr>)"
    by (auto simp add: handle_chat_completions_def read_json_body_def record_metrics_zero
        send_json_def error_body_def)
next
  assume b: "json_body r = Inr (JObj body)"
    and "\<not> (\<exists>m ms. dict_get body ''messages'' = Some (JList (m # ms)))"
  then have "(case dict_get body ''messages'' of
                Some (JList (m # ms)) \<Rightarrow> f m ms
              | _ \<Rightarrow> g) = g" for f :: "json \<Rightarrow> json list \<Rightarrow> outcome \<times> world" and g
    by (auto split: option.splits json.splits list.splits)
  then show "handle_chat_completions e s r w =
       (Returned, (recorded e 400 (latency_ms e) w)\<lparr>wire := wire w @
          send_json_events 400 (JObj [(''error'', JStr ''invalid_messages'')]) None\<rparr>)"
    using b
    by (simp add: handle_chat_completions_def read_json_body_def record_metrics_zero
        send_json_def error_body_def Let_def)
qed

subsection \<open>Dispatch\<close>

text \<open>
  A request that has passed validation and whose scan for the prompt has ended is
  proxied exactly when a backend is configured; the proxy receives the whole body.
\<close>

lemma backend_dispatch:
  assumes "backend_url s = Some base" and "base \<noteq> []"
    and "json_body r = Inr (JObj body)"
    and "dict_get body ''messages'' = Some (JList (m # ms))"
    and "extract_prompt (m # ms) = Inr prompt"
  shows "handle_chat_completions e s r w =
           handle_backend e base (get_request_id e r) (JObj body)
             (dict_get_default body ''stream'' (JBool False)) w"
  using assms
  by (cases base) (simp_all add: handle_chat_completions_def read_json_body_def Let_def)

lemma echo_dispatch:
  assumes "\<not> backend_configured s"
    and "json_body r = Inr (JObj body)"
    and "dict_get body ''messages'' = Some (JList (m # ms))"
    and "extract_prompt (m # ms) = Inr prompt"
  shows "handle_chat_completions e s r w =
           handle_echo e (get_request_id e r) prompt
             (dict_get_default body ''stream'' (JBool False)) w"
  using assms
  by (auto simp add: handle_chat_completions_def read_json_body_def Let_def
      backend_configured_def split: option.splits list.splits)

subsection \<open>Failures of the outbound call\<close>

text \<open>
  C2, as stated, fails for a streamed request whose backend times out after the
  relay has begun: the client has already been sent a head with status 200 when the
  handler writes a second head with status 504.
\<close>

theorem C2_counterexample:
  "statuses (wire (snd (handle_backend
       (env_stream (StResponse 200 [''data: hi''] (Some TimeoutException)))
       ''http://test-backend'' ''req-1'' COMPLETION_PAYLOAD (JBool True) world0)))
   = [200, 504]"
  by (simp add: handle_backend_def proxy_stream_def env_stream_def world0_def Let_def
      record_metrics_zero send_json_def send_json_events_def stream_head_events_def)

text \<open>
  C2 (amended). When the outbound call of a proxied request raises before the
  gateway has begun its response (always so for a buffered call; for a streamed call,
  when the exception comes before the upstream head), a timeout yields exactly one
  response, 504 \<^verbatim>\<open>gateway_timeout\<close>, and any other request error yields exactly one
  response, 502 \<^verbatim>\<open>backend_unavailable\<close>; in both cases exactly one outbound call was
  made.
\<close>

theorem C2_failure_before_response:
  assumes "(\<not> truthy stream \<and> post_result e = UpRaises x) \<or>
           (truthy stream \<and> stream_result e = StRaises x)"
  shows "(x = TimeoutException \<longrightarrow>
            (\<exists>w' c. handle_backend e base rid body stream w = (Returned, w') \<and>
               wire w' = wire w @
                 send_json_events 504 (JObj [(''error'', JStr ''gateway_timeout'')]) (Some rid) \<and>
               statuses (send_json_events 504 (JObj [(''error'', JStr ''gateway_timeout'')]) (Some rid)) = [504] \<and>
               calls w' = calls w @ [c])) \<and>
         (x = RequestError \<longrightarrow>
            (\<exists>w' c. handle_backend e base rid body stream w = (Returned, w') \<and>
               wire w' = wire w @
                 send_json_events 502 (JObj [(''error'', JStr ''backend_unavailable'')]) (Some rid) \<and>
               statuses (send_json_events 502 (JObj [(''error'', JStr ''backend_unavailable'')]) (Some rid)) = [502] \<and>
               calls w' = calls w @ [c]))"
  using assms
  by (auto simp add: handle_backend_def proxy_stream_def proxy_non_stream_def Let_def
      record_metrics_zero send_json_def send_json_events_def error_body_def
      split: list.splits option.splits)

theorem C2_failure_before_response_witness:
  "\<not> truthy (JBool False) \<and>
   post_result (env_post (UpRaises TimeoutException)) = UpRaises TimeoutException \<and>
   (\<exists>w' c. handle_backend (env_post (UpRaises TimeoutException)) ''http://test-backend''
              ''req-1'' COMPLETION_PAYLOAD (JBool False) world0 = (Returned, w') \<and>
      wire w' = [Status 504,
                 Header ''Content-Type'' (HStr ''application/json''),
                 Header ''Content-Length'' (HLen (JObj [(''error'', JStr ''gateway_timeout'')])),
                 Header ''X-Request-ID'' (HStr ''req-1''),
                 EndHeaders,
                 WriteBytes [Dumps (JObj [(''error'', JStr ''gateway_timeout'')])]] \<and>
      calls w' = [c]) \<and>
   truthy (JBool True) \<and>
   stream_result (env_stream (StRaises RequestError)) = StRaises RequestError \<and>
   (\<exists>w' c. handle_backend (env_stream (StRaises RequestError)) ''http://test-backend''
              ''req-1'' COMPLETION_PAYLOAD (JBool True) world0 = (Returned, w') \<and>
      wire w' = [Status 502,
                 Header ''Content-Type'' (HStr ''application/json''),
                 Header ''Content-Length'' (HLen (JObj [(''error'', JStr ''backend_unavailable'')])),
                 Header ''X-Request-ID'' (HStr ''req-1''),
                 EndHeaders,
                 WriteBytes [Dumps (JObj [(''error'', JStr ''backend_unavailable'')])]] \<and>
      calls w' = [c])"
  using C2_failure_before_response [where stream = "JBool False"
      and e = "env_post (UpRaises TimeoutException)" and x = TimeoutException
      and base = "''http://test-backend''" and rid = "''req-1''"
      and body = COMPLETION_PAYLOAD and w = world0]
    C2_failure_before_response [where stream = "JBool True"
      and e = "env_stream (StRaises RequestError)" and x = RequestError
      and base = "''http://test-backend''" and rid = "''req-1''"
      and body = COMPLETION_PAYLOAD and w = world0]
  by (simp add: env_post_def env_stream_def world0_def send_json_events_def)

subsection \<open>Buffered proxying\<close>

text \<open>
  C1. The claim is that a buffered proxied request whose backend answers with a
  status below 500 and a JSON body gets that status relayed with the body, the token
  counts of \<^verbatim>\<open>usage\<close> being read with 0 for an absent one. The handler calls
  \<^verbatim>\<open>usage.get\<close> on whatever the body has under \<^verbatim>\<open>usage\<close>. When the backend answers
  200 with \<^verbatim>\<open>{"id": "backend-id", "usage": null}\<close>, where both counts are absent, that
  call raises \<^verbatim>\<open>AttributeError\<close> after the one outbound call: the exception leaves the
  handler, nothing is written to the client and nothing is recorded.
\<close>

theorem C1_usage_null_escapes:
  "handle_backend
     (env_post (UpResponse 200 (Some (JObj [(''id'', JStr ''backend-id''), (''usage'', JNull)]))))
     ''http://test-backend'' ''req-1'' COMPLETION_PAYLOAD (JBool False) world0
   = (Raised AttributeError,
      world0\<lparr>calls := [\<lparr>verb = ''POST'', url = ''http://test-backend/v1/chat/completions'',
                          timeout = 60, payload = Some COMPLETION_PAYLOAD, streaming = False\<rparr>]\<rparr>)"
  by (simp add: handle_backend_def proxy_non_stream_def env_post_def world0_def Let_def
      rstrip_slash_def dict_get_default_def)

text \<open>
  What the buffered proxy does otherwise: a status of 500 or more is answered with
  502 \<^verbatim>\<open>backend_error\<close> and a body that is not JSON with 502
  \<^verbatim>\<open>backend_invalid_response\<close>, one request being recorded with status 502; a decoded
  object whose \<^verbatim>\<open>usage\<close> is absent or an object is relayed, with the request id as
  its \<^verbatim>\<open>id\<close>, once the metrics have been recorded with the two counts.
\<close>

lemma buffered_proxy:
  assumes "\<not> truthy stream" and "post_result e = UpResponse st dec"
  shows "st \<ge> 500 \<Longrightarrow>
           \<exists>w'. handle_backend e base rid body stream w = (Returned, w') \<and>
             wire w' = wire w @
               send_json_events 502 (JObj [(''error'', JStr ''backend_error'')]) (Some rid)"
    and "st < 500 \<Longrightarrow> dec = None \<Longrightarrow>
           \<exists>w'. handle_backend e base rid body stream w = (Returned, w') \<and>
             wire w' = wire w @
               send_json_events 502 (JObj [(''error'', JStr ''backend_invalid_response'')]) (Some rid)"
    and "st < 500 \<Longrightarrow> dec = Some (JObj kvs) \<Longrightarrow>
         dict_get_default kvs ''usage'' (JObj []) = JObj usage \<Longrightarrow>
         handle_backend e base rid body stream w = (Returned, w') \<Longrightarrow>
           wire w' = wire w @
             send_json_events st (JObj (dict_set kvs ''id'' (JStr rid))) (Some rid)"
proof -
  show "st \<ge> 500 \<Longrightarrow>
           \<exists>w'. handle_backend e base rid body stream w = (Returned, w') \<and>
             wire w' = wire w @
               send_json_events 502 (JObj [(''error'', JStr ''backend_error'')]) (Some rid)"
    using assms
    by (simp add: handle_backend_def proxy_non_stream_def Let_def record_metrics_zero
        send_json_def error_body_def)
  show "st < 500 \<Longrightarrow> dec = None \<Longrightarrow>
           \<exists>w'. handle_backend e base rid body stream w = (Returned, w') \<and>
             wire w' = wire w @
               send_json_events 502 (JObj [(''error'', JStr ''backend_invalid_response'')]) (Some rid)"
    using assms
    by (simp add: handle_backend_def proxy_non_stream_def Let_def record_metrics_zero
        send_json_def error_body_def)
  show "wire w' = wire w @
             send_json_events st (JObj (dict_set kvs ''id'' (JStr rid))) (Some rid)"
    if h: "st < 500" "dec = Some (JObj kvs)"
      "dict_get_default kvs ''usage'' (JObj []) = JObj usage"
      "handle_backend e base rid body stream w = (Returned, w')"
  proof -
    let ?t = "rstrip_slash base @ ''/v1/chat/completions''"
    let ?w1 = "w\<lparr>calls := calls w @
                 [\<lparr>verb = ''POST'', url = ?t, timeout = 60,
                   payload = Some body, streaming = False\<rparr>]\<rparr>"
    let ?d = "JObj (dict_set kvs ''id'' (JStr rid))"
    let ?rm = "record_metrics e st (latency_ms e)
                 (dict_get_default usage ''prompt_tokens'' zero)
                 (dict_get_default usage ''completion_tokens'' zero) ?w1"
    have u: "dict_get_default (dict_set kvs ''id'' (JStr rid)) ''usage'' (JObj [])
             = JObj usage"
      using h(3) by (simp add: dict_get_default_def dict_get_set_other)
    have pns: "proxy_non_stream e rid ?t body w = seq ?rm (send_json st ?d (Some rid))"
      using assms h(1,2) u by (simp add: proxy_non_stream_def Let_def)
    consider (raised) x where "x = TypeError \<or> x = OverflowError"
        "seq ?rm (send_json st ?d (Some rid)) = (Raised x, snd ?rm)"
      | (returned) "seq ?rm (send_json st ?d (Some rid))
          = (Returned, (snd ?rm)\<lparr>wire := wire ?w1 @ send_json_events st ?d (Some rid)\<rparr>)"
      using seq_record_send [of e st "latency_ms e"
        "dict_get_default usage ''prompt_tokens'' zero"
        "dict_get_default usage ''completion_tokens'' zero" ?w1 st ?d "Some rid"]
      by blast
    then show ?thesis
    proof cases
      case raised
      then have "handle_backend e base rid body stream w = (Raised x, snd ?rm)"
        using assms(1) pns by (auto simp add: handle_backend_def Let_def)
      then show ?thesis
        using h(4) by simp
    next
      case returned
      then have "handle_backend e base rid body stream w
        = (Returned, (snd ?rm)\<lparr>wire := wire ?w1 @ send_json_events st ?d (Some rid)\<rparr>)"
        using assms(1) pns by (simp add: handle_backend_def Let_def)
      then show ?thesis
        using h(4) by auto
    qed
  qed
qed

subsection \<open>Echo mode\<close>

text \<open>
  C3. The claim is that every request in echo mode that is not streamed and whose
  \<^verbatim>\<open>messages\<close> is a non-empty list gets the echo of the content of its last user
  message, or of the empty string when no message has the role \<^verbatim>\<open>user\<close>. The scan
  calls \<^verbatim>\<open>msg.get\<close> on every entry it passes and \<^verbatim>\<open>_handle_echo\<close> calls
  \<^verbatim>\<open>prompt.split()\<close> on whatever content it found. With the messages \<^verbatim>\<open>["hello"]\<close>,
  which have no user message (the claim promises the echo of the empty string), the
  scan raises \<^verbatim>\<open>AttributeError\<close>; with the one message
  \<^verbatim>\<open>{"role": "user", "content": 5}\<close> the call \<^verbatim>\<open>prompt.split()\<close> raises it. In both cases
  the exception leaves the handler, nothing is written to the client and nothing is
  recorded.
\<close>

theorem C3_echo_escapes:
  "handle_chat_completions (env_post (UpRaises OtherError)) gateway
     (post_chat [] (Some (JObj [(''messages'', JList [JStr ''hello''])]))) world0
   = (Raised AttributeError, world0) \<and>
   handle_chat_completions (env_post (UpRaises OtherError)) gateway
     (post_chat [] (Some (JObj [(''messages'',
        JList [JObj [(''role'', JStr ''user''), (''content'', JInt 5)]])]))) world0
   = (Raised AttributeError, world0)"
  by (simp add: handle_chat_completions_def read_json_body_def post_chat_def extract_prompt_def
      gateway_def handle_echo_def dict_get_default_def)

text \<open>
  C6. The claim is that every valid request in echo mode with \<^verbatim>\<open>stream\<close> set to true
  gets the SSE head, one chunk frame and the terminal frame. \<^verbatim>\<open>_handle_echo\<close> calls
  \<^verbatim>\<open>prompt.split()\<close> before \<^verbatim>\<open>_send_sse_echo\<close>. With a user message whose content is a
  list of content parts the call raises \<^verbatim>\<open>AttributeError\<close>, and with the messages
  \<^verbatim>\<open>[null]\<close> the scan raises it: in both cases the exception leaves the handler
  before the head is sent, and nothing is recorded.
\<close>

theorem C6_stream_escapes:
  "handle_chat_completions (env_post (UpRaises OtherError)) gateway
     (post_chat [] (Some (JObj [
        (''messages'', JList [JObj [(''role'', JStr ''user''),
           (''content'', JList [JObj [(''type'', JStr ''text''), (''text'', JStr ''hi'')]])]]),
        (''stream'', JBool True)]))) world0
   = (Raised AttributeError, world0) \<and>
   handle_chat_completions (env_post (UpRaises OtherError)) gateway
     (post_chat [] (Some (JObj [(''messages'', JList [JNull]), (''stream'', JBool True)]))) world0
   = (Raised AttributeError, world0)"
  by (simp add: handle_chat_completions_def read_json_body_def post_chat_def extract_prompt_def
      gateway_def handle_echo_def dict_get_default_def)

text \<open>
  What echo mode does otherwise: when the scan ends with a string \<open>P\<close>, the handler
  writes exactly one response before it records the request. Not streamed, it is a
  200 whose body is built from the content \<^verbatim>\<open>"Echo: "\<close> followed by \<open>P\<close> and the numbers
  of whitespace tokens of \<open>P\<close> and of the content; streamed, it is the SSE head, one
  chunk frame with that content and the terminal frame. The content has one token
  more than the prompt.
\<close>

lemma echo_reply:
  assumes "\<not> backend_configured s"
    and "json_body r = Inr (JObj body)"
    and "dict_get body ''messages'' = Some (JList (m # ms))"
    and "extract_prompt (m # ms) = Inr (JStr P)"
  shows "wire (snd (handle_chat_completions e s r w)) = wire w @
           (if truthy (dict_get_default body ''stream'' (JBool False))
            then sse_echo_events (get_request_id e r) (''Echo: '' @ P)
            else send_json_events 200
                   (build_response (get_request_id e r) (''Echo: '' @ P) ''echo''
                      (int (length (py_split P))) (int (length (py_split (''Echo: '' @ P)))))
                   (Some (get_request_id e r)))"
  using echo_dispatch [OF assms, of e w]
  by (simp add: handle_echo_def Let_def send_json_def send_sse_echo_def)

lemma echo_usage:
  "jpath (build_response rid content model a b)
     [Key ''choices'', Idx 0, Key ''message'', Key ''content''] = Some (JStr content)"
  "jpath (build_response rid content model a b) [Key ''usage'', Key ''prompt_tokens'']
     = Some (JInt a)"
  "jpath (build_response rid content model a b) [Key ''usage'', Key ''completion_tokens'']
     = Some (JInt b)"
  "jpath (build_response rid content model a b) [Key ''usage'', Key ''total_tokens'']
     = Some (JInt (a + b))"
  by (simp_all add: build_response_def)

lemma echo_tokens: "py_split (''Echo: '' @ p) = ''Echo:'' # py_split p"
  by (simp add: py_split_def py_isspace_def)

subsection \<open>The request id\<close>

text \<open>Every block of events that the chat-completions path writes is stamped.\<close>

lemma stamped_Nil [simp]: "stamped rid []"
  by (simp add: stamped_def)

lemma stamped_send_json:
  assumes "rid \<noteq> []" and "\<forall>v. jpath d [Key ''id''] = Some v \<longrightarrow> v = JStr rid"
  shows "stamped rid (send_json_events st d (Some rid))"
  using assms by (cases rid) (simp_all add: stamped_def send_json_events_def)

lemma stamped_error [simp]: "rid \<noteq> [] \<Longrightarrow> stamped rid (send_json_events st (error_body c) (Some rid))"
  by (rule stamped_send_json) (simp_all add: error_body_def)

lemma stamped_sse_echo [simp]: "stamped rid (sse_echo_events rid c)"
  by (simp add: stamped_def sse_echo_events_def sse_chunk_def)

lemma response_heads_relay [simp]:
  "response_heads (map (\<lambda>line. WriteBytes [Lit (line @ [CHR 0x0A])]) ls @ xs) = response_heads xs"
  by (induction ls) simp_all

lemma dumped_relay [simp]:
  "dumped (map (\<lambda>line. WriteBytes [Lit (line @ [CHR 0x0A])]) ls) = []"
  by (induction ls) simp_all

lemma stamped_stream_head [simp]:
  "stamped rid (stream_head_events rid @ map (\<lambda>line. WriteBytes [Lit (line @ [CHR 0x0A])]) ls @ xs)
     = stamped rid xs"
  by (simp add: stamped_def stream_head_events_def)

lemma stamped_append_Status:
  "stamped rid xs \<Longrightarrow> stamped rid (Status s # ys) \<Longrightarrow> stamped rid (xs @ Status s # ys)"
  by (auto simp add: stamped_def response_heads_Status)

lemma stamped_append_send_json:
  assumes "stamped rid xs" and "stamped rid (send_json_events st d r)"
  shows "stamped rid (xs @ send_json_events st d r)"
proof -
  obtain ys where "send_json_events st d r = Status st # ys"
    by (simp add: send_json_events_def)
  then show ?thesis
    using assms stamped_append_Status by simp
qed

lemma proxy_non_stream_stamped:
  assumes "rid \<noteq> []"
  shows "\<exists>evs. wire (snd (proxy_non_stream e rid t body w)) = wire w @ evs \<and> stamped rid evs"
proof (cases "post_result e")
  case (UpRaises x)
  then show ?thesis by (simp add: proxy_non_stream_def Let_def)
next
  case (UpResponse st dec)
  show ?thesis
  proof (cases "st \<ge> 500")
    case True
    then show ?thesis
      using UpResponse assms
      by (simp add: proxy_non_stream_def Let_def record_metrics_zero send_json_def)
  next
    case False
    show ?thesis
    proof (cases dec)
      case None
      then show ?thesis
        using UpResponse False assms
        by (simp add: proxy_non_stream_def Let_def record_metrics_zero send_json_def)
    next
      case (Some data)
      show ?thesis
      proof (cases data)
        case (JObj kvs)
        let ?d = "JObj (dict_set kvs ''id'' (JStr rid))"
        have st: "stamped rid (send_json_events st ?d (Some rid))"
          using assms by (intro stamped_send_json) (simp_all add: dict_get_set_same)
        show ?thesis
        proof (cases "dict_get_default (dict_set kvs ''id'' (JStr rid)) ''usage'' (JObj [])")
          case (JObj usage)
          let ?w1 = "w\<lparr>calls := calls w @
                 [\<lparr>verb = ''POST'', url = t, timeout = 60,
                   payload = Some body, streaming = False\<rparr>]\<rparr>"
          let ?rm = "record_metrics e st (latency_ms e)
                       (dict_get_default usage ''prompt_tokens'' zero)
                       (dict_get_default usage ''completion_tokens'' zero) ?w1"
          have "wire (snd (seq ?rm (send_json st ?d (Some rid)))) = wire w \<or>
                wire (snd (seq ?rm (send_json st ?d (Some rid))))
                  = wire w @ send_json_events st ?d (Some rid)"
            using seq_record_send [of e st "latency_ms e"
                "dict_get_default usage ''prompt_tokens'' zero"
                "dict_get_default usage ''completion_tokens'' zero" ?w1 st ?d "Some rid"]
            by auto
          then show ?thesis
            using UpResponse False Some \<open>data = JObj kvs\<close> JObj st
            by (auto simp add: proxy_non_stream_def Let_def)
        qed (use UpResponse False Some JObj in \<open>simp_all add: proxy_non_stream_def Let_def\<close>)
      qed (use UpResponse False Some in \<open>simp_all add: proxy_non_stream_def Let_def\<close>)
    qed
  qed
qed

lemma proxy_stream_stamped:
  assumes "rid \<noteq> []"
  shows "\<exists>evs. wire (snd (proxy_stream e rid t body w)) = wire w @ evs \<and> stamped rid evs"
proof (cases "stream_result e")
  case (StRaises x)
  then show ?thesis by (simp add: proxy_stream_def Let_def)
next
  case (StResponse st ls failure)
  then show ?thesis
    using assms
    by (cases failure)
       (simp_all add: proxy_stream_def Let_def record_metrics_zero send_json_def
          stamped_stream_head [where xs = "[]", simplified]
          stamped_stream_head [where xs = "[WriteBytes [Lit [CHR 0x0A]], Flush]", simplified]
          stamped_def [of rid "[WriteBytes [Lit [CHR 0x0A]], Flush]"])
qed

lemma handle_backend_stamped:
  assumes "rid \<noteq> []"
  shows "\<exists>evs. wire (snd (handle_backend e base rid body stream w)) = wire w @ evs \<and> stamped rid evs"
proof -
  let ?t = "rstrip_slash base @ ''/v1/chat/completions''"
  let ?r = "if truthy stream then proxy_stream e rid ?t body w
            else proxy_non_stream e rid ?t body w"
  obtain evs where evs: "wire (snd ?r) = wire w @ evs" "stamped rid evs"
    using proxy_stream_stamped [OF assms] proxy_non_stream_stamped [OF assms]
    by (cases "truthy stream") (simp_all, blast+)
  obtain out w1 where r: "?r = (out, w1)"
    by (cases ?r) blast
  have w1: "wire w1 = wire w @ evs"
    using evs(1) r by simp
  show ?thesis
  proof (cases "out = Raised TimeoutException \<or> out = Raised RequestError")
    case True
    then show ?thesis
      using r w1 evs(2) assms
      by (auto simp add: handle_backend_def Let_def record_metrics_zero send_json_def
          intro!: stamped_append_send_json)
  next
    case False
    then have "handle_backend e base rid body stream w = (out, w1)"
      using r by (auto simp add: handle_backend_def Let_def split: outcome.splits pyexc.splits)
    then show ?thesis
      using w1 evs(2) by auto
  qed
qed

lemma handle_echo_stamped:
  assumes "rid \<noteq> []"
  shows "\<exists>evs. wire (snd (handle_echo e rid prompt stream w)) = wire w @ evs \<and> stamped rid evs"
proof (cases prompt)
  case (JStr p)
  have "stamped rid (send_json_events 200
          (build_response rid (''Echo: '' @ p) ''echo'' a b) (Some rid))" for a b
    using assms by (intro stamped_send_json) (simp_all add: build_response_def)
  then show ?thesis
    using JStr by (simp add: handle_echo_def Let_def send_json_def send_sse_echo_def)
qed (simp_all add: handle_echo_def)

lemma get_request_id_nonempty: "fresh_uuid e \<noteq> [] \<Longrightarrow> get_request_id e r \<noteq> []"
  by (simp add: get_request_id_def split: option.splits list.splits)

lemma unstamped_send_json:
  "\<forall>h \<in> set (response_heads (send_json_events st d None)). map_of (snd h) ''X-Request-ID'' = None"
  by (simp add: send_json_events_def)

lemma do_GET_unstamped:
  "\<exists>evs. wire (snd (do_GET e s r w)) = wire w @ evs \<and>
     (\<forall>h \<in> set (response_heads evs). map_of (snd h) ''X-Request-ID'' = None)"
proof -
  have "wire (snd (do_GET e s r w)) = wire w @ [] \<or>
        (\<exists>st d. wire (snd (do_GET e s r w)) = wire w @ send_json_events st d None)"
    by (auto simp add: do_GET_def proxy_models_def send_json_def Let_def
        split: option.splits list.splits upstream.splits pyexc.splits)
  then show ?thesis
    using unstamped_send_json by (metis empty_iff list.set(1) response_heads.simps(1))
qed

text \<open>
  C4, as stated, fails: the answer to GET \<^verbatim>\<open>/healthz\<close>, the 404 answer to a POST to
  an unknown path, and the 400 answer to a chat-completions body that is not JSON,
  carry no \<^verbatim>\<open>X-Request-ID\<close> header although the request supplied one.
  \<^verbatim>\<open>_send_json\<close> adds the header only when it is given a request id. The GET routes
  and the 404 answers never resolve one; the two 400 answers are written after the
  id has been resolved and do not pass it on.
\<close>

theorem C4_counterexample:
  "response_heads (wire (snd (do_GET (env_post (UpRaises OtherError)) gateway
       (get_with [(''X-Request-ID'', ''my-request-123'')] ''/healthz'') world0)))
     = [(200, [(''Content-Type'', HStr ''application/json''),
               (''Content-Length'', HLen (JObj [(''status'', JStr ''ok'')]))])] \<and>
   response_heads (wire (snd (handle_chat_completions (env_post (UpRaises OtherError)) gateway
       (post_chat [(''X-Request-ID'', ''my-request-123'')] None) world0)))
     = [(400, [(''Content-Type'', HStr ''application/json''),
               (''Content-Length'', HLen (JObj [(''error'', JStr ''invalid_json'')]))])] \<and>
   response_heads (wire (snd (do_POST (env_post (UpRaises OtherError)) gateway
       (get_with [(''X-Request-ID'', ''my-request-123'')] ''/unknown'') world0)))
     = [(404, [(''Content-Type'', HStr ''application/json''),
               (''Content-Length'', HLen (JObj [(''error'', JStr ''not_found'')]))])]"
  by (simp add: handle_chat_completions_def read_json_body_def post_chat_def
      record_metrics_zero send_json_def send_json_events_def error_body_def world0_def
      do_GET_def do_POST_def get_with_def)

text \<open>
  C4 (amended). The request id of a chat-completions request is the
  \<^verbatim>\<open>X-Request-ID\<close> header when it is supplied and not empty, else the \<^verbatim>\<open>Request-Id\<close>
  header when it is supplied and not empty, else the freshly generated UUID. Once
  the body has passed validation (a JSON object whose \<^verbatim>\<open>messages\<close> is a non-empty
  list), every response head that the handler writes, for a success, a relayed
  backend answer or a translated backend failure, carries \<^verbatim>\<open>X-Request-ID\<close> with this
  id, and every JSON document it sends that has a top-level \<^verbatim>\<open>id\<close> has this id there
  (the generated UUID being a non-empty string). No response head written for a GET
  request, and none written for a POST to another path, which is answered with 404,
  has an \<^verbatim>\<open>X-Request-ID\<close> header.
\<close>

theorem C4_request_id:
  "(\<forall>v. headers_get (headers r) ''X-Request-ID'' = Some v \<and> v \<noteq> [] \<longrightarrow>
        get_request_id e r = v) \<and>
   (\<forall>v. (headers_get (headers r) ''X-Request-ID'' = None \<or>
         headers_get (headers r) ''X-Request-ID'' = Some []) \<and>
        headers_get (headers r) ''Request-Id'' = Some v \<and> v \<noteq> [] \<longrightarrow>
        get_request_id e r = v) \<and>
   ((headers_get (headers r) ''X-Request-ID'' = None \<or>
     headers_get (headers r) ''X-Request-ID'' = Some []) \<and>
    (headers_get (headers r) ''Request-Id'' = None \<or>
     headers_get (headers r) ''Request-Id'' = Some []) \<longrightarrow>
        get_request_id e r = fresh_uuid e) \<and>
   (json_body r = Inr (JObj body) \<and>
    dict_get body ''messages'' = Some (JList (m # ms)) \<and>
    fresh_uuid e \<noteq> [] \<longrightarrow>
      (\<exists>evs. wire (snd (handle_chat_completions e s r w)) = wire w @ evs \<and>
         (\<forall>h \<in> set (response_heads evs).
            map_of (snd h) ''X-Request-ID'' = Some (HStr (get_request_id e r))) \<and>
         (\<forall>j \<in> set (dumped evs). \<forall>v.
            jpath j [Key ''id''] = Some v \<longrightarrow> v = JStr (get_request_id e r)))) \<and>
   (\<exists>evs. wire (snd (do_GET e s r w)) = wire w @ evs \<and>
      (\<forall>h \<in> set (response_heads evs). map_of (snd h) ''X-Request-ID'' = None)) \<and>
   (path r \<noteq> ''/v1/chat/completions'' \<longrightarrow>
      (\<exists>evs. do_POST e s r w = (Returned, w\<lparr>wire := wire w @ evs\<rparr>) \<and>
         map fst (response_heads evs) = [404] \<and>
         (\<forall>h \<in> set (response_heads evs). map_of (snd h) ''X-Request-ID'' = None)))"
proof (intro conjI impI allI)
  fix v
  assume "headers_get (headers r) ''X-Request-ID'' = Some v \<and> v \<noteq> []"
  then show "get_request_id e r = v"
    by (cases v) (simp_all add: get_request_id_def)
next
  fix v
  assume "(headers_get (headers r) ''X-Request-ID'' = None \<or>
           headers_get (headers r) ''X-Request-ID'' = Some []) \<and>
          headers_get (headers r) ''Request-Id'' = Some v \<and> v \<noteq> []"
  then show "get_request_id e r = v"
    by (cases v) (auto simp add: get_request_id_def)
next
  assume "(headers_get (headers r) ''X-Request-ID'' = None \<or>
           headers_get (headers r) ''X-Request-ID'' = Some []) \<and>
          (headers_get (headers r) ''Request-Id'' = None \<or>
           headers_get (headers r) ''Request-Id'' = Some [])"
  then show "get_request_id e r = fresh_uuid e"
    by (auto simp add: get_request_id_def)
next
  let ?rid = "get_request_id e r"
  assume h: "json_body r = Inr (JObj body) \<and>
    dict_get body ''messages'' = Some (JList (m # ms)) \<and> fresh_uuid e \<noteq> []"
  then have rid: "?rid \<noteq> []"
    by (simp add: get_request_id_nonempty)
  have "\<exists>evs. wire (snd (handle_chat_completions e s r w)) = wire w @ evs \<and> stamped ?rid evs"
  proof (cases "extract_prompt (m # ms)")
    case (Inl x)
    then show ?thesis
      using h by (simp add: handle_chat_completions_def read_json_body_def Let_def)
  next
    case (Inr prompt)
    then show ?thesis
      using h handle_backend_stamped [OF rid] handle_echo_stamped [OF rid]
      by (simp add: handle_chat_completions_def read_json_body_def Let_def
          split: option.splits list.splits)
  qed
  then show "\<exists>evs. wire (snd (handle_chat_completions e s r w)) = wire w @ evs \<and>
         (\<forall>h \<in> set (response_heads evs).
            map_of (snd h) ''X-Request-ID'' = Some (HStr (get_request_id e r))) \<and>
         (\<forall>j \<in> set (dumped evs). \<forall>v.
            jpath j [Key ''id''] = Some v \<longrightarrow> v = JStr (get_request_id e r))"
    by (simp add: stamped_def)
next
  show "\<exists>evs. wire (snd (do_GET e s r w)) = wire w @ evs \<and>
      (\<forall>h \<in> set (response_heads evs). map_of (snd h) ''X-Request-ID'' = None)"
    by (rule do_GET_unstamped)
next
  assume "path r \<noteq> ''/v1/chat/completions''"
  then have a: "do_POST e s r w =
      (Returned, w\<lparr>wire := wire w @ send_json_events 404 (error_body ''not_found'') None\<rparr>)"
    by (simp add: do_POST_def send_json_def)
  have b: "map fst (response_heads (send_json_events 404 (error_body ''not_found'') None))
      = [404]"
    by (simp add: send_json_events_def)
  have c: "\<forall>h \<in> set (response_heads (send_json_events 404 (error_body ''not_found'') None)).
      map_of (snd h) ''X-Request-ID'' = None"
    by (rule unstamped_send_json)
  show "\<exists>evs. do_POST e s r w = (Returned, w\<lparr>wire := wire w @ evs\<rparr>) \<and>
         map fst (response_heads evs) = [404] \<and>
         (\<forall>h \<in> set (response_heads evs). map_of (snd h) ''X-Request-ID'' = None)"
    using a b c by (intro exI [where x = "send_json_events 404 (error_body ''not_found'') None"] conjI)
qed

theorem C4_request_id_witness:
  "get_request_id (env_post (UpRaises TimeoutException))
     (post_chat [(''x-request-id'', ''my-request-123''), (''Request-Id'', ''alt-request-456'')]
        (Some COMPLETION_PAYLOAD)) = ''my-request-123'' \<and>
   get_request_id (env_post (UpRaises TimeoutException))
     (post_chat [(''X-Request-ID'', []), (''Request-Id'', ''alt-request-456'')]
        (Some COMPLETION_PAYLOAD)) = ''alt-request-456'' \<and>
   get_request_id (env_post (UpRaises TimeoutException)) (post_chat [] (Some COMPLETION_PAYLOAD))
     = ''0b0e4c1e-7c3a-4d2f-9a51-5f6c2d8e9a10'' \<and>
   (\<exists>evs. wire (snd (handle_chat_completions (env_post (UpRaises TimeoutException))
              backend_gateway
              (post_chat [(''x-request-id'', ''my-request-123'')] (Some COMPLETION_PAYLOAD))
              world0)) = evs \<and>
      map fst (response_heads evs) = [504] \<and>
      list_all (\<lambda>h. map_of (snd h) ''X-Request-ID'' = Some (HStr ''my-request-123''))
        (response_heads evs)) \<and>
   path (get_path ''/unknown'') \<noteq> ''/v1/chat/completions'' \<and>
   (\<exists>evs. do_POST (env_post (UpRaises TimeoutException)) gateway (get_path ''/unknown'') world0
        = (Returned, world0\<lparr>wire := wire world0 @ evs\<rparr>) \<and>
      map fst (response_heads evs) = [404] \<and>
      list_all (\<lambda>h. map_of (snd h) ''X-Request-ID'' = None) (response_heads evs))"
proof -
  let ?e = "env_post (UpRaises TimeoutException)"
  let ?r1 = "post_chat [(''x-request-id'', ''my-request-123''), (''Request-Id'', ''alt-request-456'')]
        (Some COMPLETION_PAYLOAD)"
  let ?r2 = "post_chat [(''X-Request-ID'', []), (''Request-Id'', ''alt-request-456'')]
        (Some COMPLETION_PAYLOAD)"
  let ?r3 = "post_chat [] (Some COMPLETION_PAYLOAD)"
  let ?r4 = "post_chat [(''x-request-id'', ''my-request-123'')] (Some COMPLETION_PAYLOAD)"
  have a: "get_request_id ?e ?r1 = ''my-request-123''"
    by (simp add: get_request_id_def post_chat_def lower_char_def)
  have b: "get_request_id ?e ?r2 = ''alt-request-456''"
    by (simp add: get_request_id_def post_chat_def lower_char_def)
  have c: "get_request_id ?e ?r3 = ''0b0e4c1e-7c3a-4d2f-9a51-5f6c2d8e9a10''"
    by (simp add: get_request_id_def post_chat_def env_post_def)
  have r4: "get_request_id ?e ?r4 = ''my-request-123''"
    by (simp add: get_request_id_def post_chat_def lower_char_def)
  have "\<exists>evs. wire (snd (handle_chat_completions ?e backend_gateway ?r4 world0))
            = wire world0 @ evs \<and>
         (\<forall>h \<in> set (response_heads evs).
            map_of (snd h) ''X-Request-ID'' = Some (HStr (get_request_id ?e ?r4))) \<and>
         (\<forall>j \<in> set (dumped evs). \<forall>v.
            jpath j [Key ''id''] = Some v \<longrightarrow> v = JStr (get_request_id ?e ?r4))"
    using C4_request_id [where r = ?r4 and e = ?e and s = backend_gateway and w = world0
        and body = "[(''model'', JStr ''test''),
                   (''messages'', JList [JObj [(''role'', JStr ''user''), (''content'', JStr ''hello'')]])]"
        and m = "JObj [(''role'', JStr ''user''), (''content'', JStr ''hello'')]" and ms = "[]"]
    by (simp add: post_chat_def COMPLETION_PAYLOAD_def env_post_def)
  then have d: "list_all (\<lambda>h. map_of (snd h) ''X-Request-ID'' = Some (HStr ''my-request-123''))
        (response_heads (wire (snd (handle_chat_completions ?e backend_gateway ?r4 world0))))"
    using r4 by (auto simp add: world0_def list_all_iff)
  have e: "map fst (response_heads (wire (snd (handle_chat_completions ?e backend_gateway ?r4 world0))))
        = [504]"
  proof -
    have p: "extract_prompt [JObj [(''role'', JStr ''user''), (''content'', JStr ''hello'')]]
               = Inr (JStr ''hello'')"
      by (simp add: extract_prompt_def dict_get_default_def)
    have "handle_chat_completions ?e backend_gateway ?r4 world0 =
            handle_backend ?e ''http://test-backend'' (get_request_id ?e ?r4) COMPLETION_PAYLOAD
              (JBool False) world0"
      using backend_dispatch [where s = backend_gateway and base = "''http://test-backend''"
          and r = ?r4 and e = ?e and w = world0, OF _ _ _ _ p]
      by (simp add: backend_gateway_def post_chat_def COMPLETION_PAYLOAD_def dict_get_default_def)
    then have "handle_chat_completions ?e backend_gateway ?r4 world0 =
            handle_backend ?e ''http://test-backend'' ''my-request-123'' COMPLETION_PAYLOAD
              (JBool False) world0"
      by (simp only: r4)
    then show ?thesis
      by (simp add: handle_backend_def proxy_non_stream_def env_post_def
          Let_def record_metrics_zero send_json_def send_json_events_def world0_def)
  qed
  have f: "path (get_path ''/unknown'') \<noteq> ''/v1/chat/completions''"
    by (simp add: get_path_def)
  have g: "\<exists>evs. do_POST ?e gateway (get_path ''/unknown'') world0
        = (Returned, world0\<lparr>wire := wire world0 @ evs\<rparr>) \<and>
      map fst (response_heads evs) = [404] \<and>
      list_all (\<lambda>h. map_of (snd h) ''X-Request-ID'' = None) (response_heads evs)"
    using C4_request_id [where r = "get_path ''/unknown''" and e = ?e and s = gateway
        and w = world0] f
    by (simp add: list_all_iff)
  show ?thesis
    using a b c d e f g by simp
qed

subsection \<open>Metrics accounting\<close>

text \<open>Every handler that returns normally has accounted for its request.\<close>

lemma statuses_send_json [simp]: "statuses (send_json_events st d r) = [st]"
  by (simp add: send_json_events_def split: option.splits list.splits)

lemma statuses_relay [simp]:
  "statuses (map (\<lambda>line. WriteBytes [Lit (line @ [CHR 0x0A])]) ls) = []"
  by (induction ls) simp_all

lemma statuses_stream_head [simp]: "statuses (stream_head_events rid) = [200]"
  by (simp add: stream_head_events_def)

lemma statuses_sse_echo [simp]: "statuses (sse_echo_events rid c) = [200]"
  by (simp add: sse_echo_events_def)













lemma nonneg_int_zero [simp]: "nonneg_int zero"
  by (simp add: zero_def)



lemma seq_send_metrics [simp]:
  "metrics (snd (seq r (send_json st d rid))) = metrics (snd r)"
  by (cases r; cases "fst r") (simp_all add: send_json_def)






















subsection \<open>The counters over a run\<close>




end
